theory Spec2Isabelle
  imports Main
begin

section \<open>Items\<close>

text \<open>
  The item classes of \<^verbatim>\<open>026.py\<close>: \<^verbatim>\<open>Item\<close> (a dataclass with name and
  description), \<^verbatim>\<open>Consumable\<close> (a plain subclass of \<^verbatim>\<open>Item\<close>), and the
  dataclasses \<^verbatim>\<open>Weapon\<close>, \<^verbatim>\<open>Armor\<close> and \<^verbatim>\<open>Potion\<close>. A value of type
  \<open>item\<close> is the class of an object together with its fields, in field order. The
  durability of a weapon or an armor is a field like any other once the object exists
  (its default is drawn by \<^verbatim>\<open>random.randint(1, 10)\<close> when the caller gives none).
\<close>

datatype PotionType =
  HEALTH | MANA | STRENGTH | PERCEPTION | DEXTERITY | INTELLIGENCE | CHARISMA | LUCK

datatype item =
    Item string string
  | Consumable string string
  | Weapon string string int int
  | Armor string string int int
  | Potion string string PotionType int

fun item_name :: "item \<Rightarrow> string" where
  "item_name (Item n d) = n"
| "item_name (Consumable n d) = n"
| "item_name (Weapon n d dmg dur) = n"
| "item_name (Armor n d def dur) = n"
| "item_name (Potion n d t a) = n"

text \<open>\<^verbatim>\<open>isinstance(x, Potion)\<close>: no class derives from \<^verbatim>\<open>Potion\<close>.\<close>

fun isinstance_Potion :: "item \<Rightarrow> bool" where
  "isinstance_Potion (Potion n d t a) = True"
| "isinstance_Potion _ = False"

text \<open>
  Objects have an identity. A reference is the address of an object, and the heap gives
  the object at each address. No operation of the program mutates an item, so the heap is
  read only.
\<close>

type_synonym ref = nat
type_synonym heap = "ref \<Rightarrow> item"

text \<open>
  The comparison that \<^verbatim>\<open>x in xs\<close>, \<^verbatim>\<open>xs.remove(x)\<close> and \<^verbatim>\<open>xs.count(x)\<close>
  apply to each element: the same object, or \<^verbatim>\<open>==\<close>. The \<^verbatim>\<open>__eq__\<close> that
  \<^verbatim>\<open>@dataclass\<close> generates holds for two objects of the same class with equal
  field tuples, which is equality of \<open>item\<close> values.
\<close>

definition py_eq :: "heap \<Rightarrow> ref \<Rightarrow> ref \<Rightarrow> bool" where
  "py_eq h a b = (a = b \<or> h a = h b)"

fun list_contains :: "heap \<Rightarrow> ref list \<Rightarrow> ref \<Rightarrow> bool" where
  "list_contains h [] x = False"
| "list_contains h (y # ys) x = (py_eq h y x \<or> list_contains h ys x)"

fun list_count :: "heap \<Rightarrow> ref list \<Rightarrow> ref \<Rightarrow> nat" where
  "list_count h [] x = 0"
| "list_count h (y # ys) x = (if py_eq h y x then 1 else 0) + list_count h ys x"

datatype error = ValueError | TypeError | AttributeError | NameError

text \<open>\<^verbatim>\<open>xs.remove(x)\<close> deletes the first matching element and raises
  \<^verbatim>\<open>ValueError\<close> when there is none.\<close>

fun list_remove :: "heap \<Rightarrow> ref list \<Rightarrow> ref \<Rightarrow> error + ref list" where
  "list_remove h [] x = Inl ValueError"
| "list_remove h (y # ys) x =
     (if py_eq h y x then Inr ys
      else (case list_remove h ys x of Inl e \<Rightarrow> Inl e | Inr zs \<Rightarrow> Inr (y # zs)))"

section \<open>The display sink\<close>

text \<open>
  Every \<^verbatim>\<open>print\<close> of the program is one report; a report carries the values the
  message interpolates, in the order of the f-string.
\<close>

datatype report =
    Drinking PotionType int
  | Healed string int int
  | NotConsumable string
  | DoesNotHave string string
  | Defeated string
  | TookDamage string int int
  | Attacks string string int
  | PickedUp string ref

text \<open>
  \<^verbatim>\<open>consume\<close>: a potion reports and returns its amount; \<^verbatim>\<open>Consumable.consume\<close>
  has the body \<^verbatim>\<open>...\<close> and returns \<^verbatim>\<open>None\<close>; the other classes have no such
  method.
\<close>

fun consume :: "item \<Rightarrow> error + report list \<times> int option" where
  "consume (Potion n d t a) = Inr ([Drinking t a], Some a)"
| "consume (Consumable n d) = Inr ([], None)"
| "consume _ = Inl AttributeError"

section \<open>Characters\<close>

datatype CharacterClass =
    KNIGHT | MAGE | ROGUE | ARCHER | CLERIC | WARRIOR | ASSASSIN | BERSERKER | PALADIN
  | NECROMANCER | DRUID | BARD | MONK | RANGER | SORCERER | WARLOCK | WIZARD | BARBARIAN
  | ARTIFICER | BLOODHUNTER | GRUNT

fun CharacterClass_value :: "CharacterClass \<Rightarrow> string" where
  "CharacterClass_value KNIGHT = ''Knight''"
| "CharacterClass_value MAGE = ''Mage''"
| "CharacterClass_value ROGUE = ''Rogue''"
| "CharacterClass_value ARCHER = ''Archer''"
| "CharacterClass_value CLERIC = ''Cleric''"
| "CharacterClass_value WARRIOR = ''Warrior''"
| "CharacterClass_value ASSASSIN = ''Assassin''"
| "CharacterClass_value BERSERKER = ''Berserker''"
| "CharacterClass_value PALADIN = ''Paladin''"
| "CharacterClass_value NECROMANCER = ''Necromancer''"
| "CharacterClass_value DRUID = ''Druid''"
| "CharacterClass_value BARD = ''Bard''"
| "CharacterClass_value MONK = ''Monk''"
| "CharacterClass_value RANGER = ''Ranger''"
| "CharacterClass_value SORCERER = ''Sorcerer''"
| "CharacterClass_value WARLOCK = ''Warlock''"
| "CharacterClass_value WIZARD = ''Wizard''"
| "CharacterClass_value BARBARIAN = ''Barbarian''"
| "CharacterClass_value ARTIFICER = ''Artificer''"
| "CharacterClass_value BLOODHUNTER = ''Blood Hunter''"
| "CharacterClass_value GRUNT = ''Grunt''"

record Character =
  name :: string
  character_class :: string
  strength :: int
  perception :: int
  dexterity :: int
  intelligence :: int
  charisma :: int
  luck :: int
  level :: int
  health :: int
  attack :: int
  defense :: int
  inventory :: "ref list"

subsection \<open>Combat\<close>

text \<open>The local variable \<^verbatim>\<open>damage_taken\<close> of \<^verbatim>\<open>take_damage\<close>.\<close>

definition damage_taken :: "Character \<Rightarrow> int \<Rightarrow> int" where
  "damage_taken self amount = max 0 (amount - defense self)"

definition take_damage :: "Character \<Rightarrow> int \<Rightarrow> report list \<times> Character" where
  "take_damage self amount =
     (let self1 = self\<lparr>health := health self - damage_taken self amount\<rparr>
      in if health self1 \<le> 0
         then ([Defeated (name self1)], self1\<lparr>health := 0\<rparr>)
         else ([TookDamage (name self1) amount (health self1)], self1))"

definition attack_enemy :: "Character \<Rightarrow> Character \<Rightarrow> report list \<times> Character" where
  "attack_enemy self enemy =
     (case take_damage enemy (attack self) of
        (out, enemy') \<Rightarrow> (Attacks (name self) (name enemy) (attack self) # out, enemy'))"

subsection \<open>Construction\<close>

text \<open>
  The arguments of \<^verbatim>\<open>Character(...)\<close>. \<^verbatim>\<open>character_class\<close> is a string or
  a member of the enum; every argument after it is optional. The six attributes default
  to \<^verbatim>\<open>random.randint(1, 10)\<close>: the values the random source returns are the
  \<open>rolls\<close>, one for each attribute whose argument is missing.
\<close>

datatype class_arg = Enum CharacterClass | Str string

record ctor_args =
  arg_name :: string
  arg_character_class :: class_arg
  arg_strength :: "int option"
  arg_perception :: "int option"
  arg_dexterity :: "int option"
  arg_intelligence :: "int option"
  arg_charisma :: "int option"
  arg_luck :: "int option"
  arg_level :: "int option"
  arg_health :: "int option"
  arg_attack :: "int option"
  arg_defense :: "int option"
  arg_inventory :: "ref list option"

record rolls =
  roll_strength :: int
  roll_perception :: int
  roll_dexterity :: int
  roll_intelligence :: int
  roll_charisma :: int
  roll_luck :: int

text \<open>The value of a field after \<^verbatim>\<open>__init__\<close>: the argument, or the default.\<close>

fun supplied_or :: "'a option \<Rightarrow> 'a \<Rightarrow> 'a" where
  "supplied_or None dflt = dflt"
| "supplied_or (Some v) dflt = v"

text \<open>
  The generated \<^verbatim>\<open>__init__\<close> followed by the first two statements of
  \<^verbatim>\<open>__post_init__\<close>: an inventory of \<^verbatim>\<open>None\<close> becomes the empty list and an
  enum member becomes its \<^verbatim>\<open>value\<close>.
\<close>

definition init_fields :: "rolls \<Rightarrow> ctor_args \<Rightarrow> Character" where
  "init_fields r a =
     \<lparr>name = arg_name a,
      character_class =
        (case arg_character_class a of Enum e \<Rightarrow> CharacterClass_value e | Str s \<Rightarrow> s),
      strength = supplied_or (arg_strength a) (roll_strength r),
      perception = supplied_or (arg_perception a) (roll_perception r),
      dexterity = supplied_or (arg_dexterity a) (roll_dexterity r),
      intelligence = supplied_or (arg_intelligence a) (roll_intelligence r),
      charisma = supplied_or (arg_charisma a) (roll_charisma r),
      luck = supplied_or (arg_luck a) (roll_luck r),
      level = supplied_or (arg_level a) 1,
      health = supplied_or (arg_health a) 100,
      attack = supplied_or (arg_attack a) 10,
      defense = supplied_or (arg_defense a) 5,
      inventory = supplied_or (arg_inventory a) []\<rparr>"

text \<open>\<^verbatim>\<open>_apply_class_bonuses\<close>: the chain of \<^verbatim>\<open>if\<close>/\<^verbatim>\<open>elif\<close>, which has no
  \<^verbatim>\<open>else\<close>.\<close>

definition apply_class_bonuses :: "Character \<Rightarrow> Character" where
  "apply_class_bonuses self =
     (if character_class self = CharacterClass_value KNIGHT then
        self\<lparr>strength := strength self + 2, defense := defense self + 1, health := health self + 10\<rparr>
      else if character_class self = CharacterClass_value MAGE then
        self\<lparr>intelligence := intelligence self + 3, attack := attack self + 2, health := health self - 5\<rparr>
      else if character_class self = CharacterClass_value ROGUE then
        self\<lparr>dexterity := dexterity self + 3, perception := perception self + 1, attack := attack self + 1\<rparr>
      else if character_class self = CharacterClass_value ARCHER then
        self\<lparr>dexterity := dexterity self + 2, perception := perception self + 2, attack := attack self + 1\<rparr>
      else if character_class self = CharacterClass_value CLERIC then
        self\<lparr>charisma := charisma self + 2, intelligence := intelligence self + 1, health := health self + 5\<rparr>
      else if character_class self = CharacterClass_value WARRIOR then
        self\<lparr>strength := strength self + 3, defense := defense self + 2, health := health self + 15\<rparr>
      else if character_class self = CharacterClass_value ASSASSIN then
        self\<lparr>dexterity := dexterity self + 4, luck := luck self + 1, attack := attack self + 2, health := health self - 10\<rparr>
      else if character_class self = CharacterClass_value BERSERKER then
        self\<lparr>strength := strength self + 4, health := health self + 20, defense := defense self - 1\<rparr>
      else if character_class self = CharacterClass_value PALADIN then
        self\<lparr>strength := strength self + 1, charisma := charisma self + 2, defense := defense self + 2, health := health self + 10\<rparr>
      else if character_class self = CharacterClass_value NECROMANCER then
        self\<lparr>intelligence := intelligence self + 3, charisma := charisma self + 1, health := health self - 5\<rparr>
      else if character_class self = CharacterClass_value DRUID then
        self\<lparr>charisma := charisma self + 2, perception := perception self + 1, health := health self + 5\<rparr>
      else if character_class self = CharacterClass_value BARD then
        self\<lparr>charisma := charisma self + 2, luck := luck self + 1, attack := attack self + 1\<rparr>
      else if character_class self = CharacterClass_value MONK then
        self\<lparr>charisma := charisma self + 2, strength := strength self + 1, health := health self + 5\<rparr>
      else if character_class self = CharacterClass_value RANGER then
        self\<lparr>dexterity := dexterity self + 3, perception := perception self + 2, attack := attack self + 1\<rparr>
      else if character_class self = CharacterClass_value SORCERER then
        self\<lparr>intelligence := intelligence self + 4, luck := luck self + 1, attack := attack self + 2\<rparr>
      else if character_class self = CharacterClass_value WARLOCK then
        self\<lparr>charisma := charisma self + 3, luck := luck self + 2, health := health self - 10\<rparr>
      else if character_class self = CharacterClass_value WIZARD then
        self\<lparr>intelligence := intelligence self + 4, luck := luck self + 1, attack := attack self + 2\<rparr>
      else if character_class self = CharacterClass_value BARBARIAN then
        self\<lparr>strength := strength self + 4, defense := defense self + 2, health := health self + 20\<rparr>
      else if character_class self = CharacterClass_value ARTIFICER then
        self\<lparr>intelligence := intelligence self + 3, luck := luck self + 1, attack := attack self + 1\<rparr>
      else if character_class self = CharacterClass_value BLOODHUNTER then
        self\<lparr>strength := strength self + 3, dexterity := dexterity self + 1, health := health self + 10\<rparr>
      else if character_class self = CharacterClass_value GRUNT then
        self\<lparr>strength := strength self + 1, health := health self + 5\<rparr>
      else self)"

definition new_Character :: "rolls \<Rightarrow> ctor_args \<Rightarrow> Character" where
  "new_Character r a = apply_class_bonuses (init_fields r a)"

subsection \<open>Inventory\<close>

definition add_item :: "Character \<Rightarrow> ref \<Rightarrow> report list \<times> Character" where
  "add_item self item = ([PickedUp (name self) item], self\<lparr>inventory := inventory self @ [item]\<rparr>)"

text \<open>
  \<^verbatim>\<open>use_consumable\<close>. Adding \<^verbatim>\<open>None\<close> to the health raises \<^verbatim>\<open>TypeError\<close>,
  and \<^verbatim>\<open>remove\<close> may raise \<^verbatim>\<open>ValueError\<close>; both are branches here.
\<close>

definition use_consumable :: "heap \<Rightarrow> Character \<Rightarrow> ref \<Rightarrow> error + report list \<times> Character" where
  "use_consumable h self consumable =
     (if list_contains h (inventory self) consumable then
        if isinstance_Potion (h consumable) then
          (case consume (h consumable) of
             Inl e \<Rightarrow> Inl e
           | Inr (out, None) \<Rightarrow> Inl TypeError
           | Inr (out, Some healed_amount) \<Rightarrow>
               (let self1 = self\<lparr>health := health self + healed_amount\<rparr>
                in case list_remove h (inventory self1) consumable of
                     Inl e \<Rightarrow> Inl e
                   | Inr rest \<Rightarrow>
                       Inr (out @ [Healed (name self1) healed_amount (health self1)],
                            self1\<lparr>inventory := rest\<rparr>)))
        else Inr ([NotConsumable (item_name (h consumable))], self)
      else Inr ([DoesNotHave (name self) (item_name (h consumable))], self))"

section \<open>Sequences of calls\<close>

text \<open>
  A program over the model creates characters and calls their methods. The characters
  that exist are a list, and the position of a character in it is its identity, so that
  \<open>AttackEnemy i i\<close> is a character attacking itself. A call on a character that does
  not exist is a \<^verbatim>\<open>NameError\<close>.

  The constructor keeps the list it is given (\<^verbatim>\<open>__post_init__\<close> replaces only
  \<^verbatim>\<open>None\<close>, by a new empty list), and \<^verbatim>\<open>add_item\<close> and \<^verbatim>\<open>use_consumable\<close>
  change that list in place, so two characters constructed with one list share one
  inventory. A character of the world is therefore a pair: its fields, where the
  inventory is the present contents of its list, and the address of that list.
  \<open>New r a\<close> constructs a character with a list that no other character holds
  (\<^verbatim>\<open>None\<close>, or a list passed to this constructor only), and \<open>NewSharing r a j\<close>
  constructs one with the list of character \<open>j\<close>.
\<close>

datatype call =
    New rolls ctor_args
  | NewSharing rolls ctor_args nat
  | TakeDamage nat int
  | AttackEnemy nat nat
  | AddItem nat ref
  | UseConsumable nat ref

type_synonym world = "(Character \<times> nat) list"

text \<open>
  The state after a method of character \<open>i\<close> has run: its fields are the method's, and
  every character with the same list sees the contents the method left.
\<close>

definition write_back :: "nat \<Rightarrow> Character \<Rightarrow> world \<Rightarrow> world" where
  "write_back i c w =
     map (\<lambda>(d, k). if k = snd (w ! i) then (d\<lparr>inventory := inventory c\<rparr>, k) else (d, k))
       (w[i := (c, snd (w ! i))])"

fun step :: "heap \<Rightarrow> call \<Rightarrow> world \<Rightarrow> error + report list \<times> world" where
  "step h (New r a) w = Inr ([], w @ [(new_Character r a, length w)])"
| "step h (NewSharing r a j) w =
     (if j < length w
      then Inr ([], w @ [(new_Character r (a\<lparr>arg_inventory := Some (inventory (fst (w ! j)))\<rparr>),
                          snd (w ! j))])
      else Inl NameError)"
| "step h (TakeDamage i amount) w =
     (if i < length w
      then (case take_damage (fst (w ! i)) amount of
              (out, c) \<Rightarrow> Inr (out, w[i := (c, snd (w ! i))]))
      else Inl NameError)"
| "step h (AttackEnemy i j) w =
     (if i < length w \<and> j < length w
      then (case attack_enemy (fst (w ! i)) (fst (w ! j)) of
              (out, c) \<Rightarrow> Inr (out, w[j := (c, snd (w ! j))]))
      else Inl NameError)"
| "step h (AddItem i x) w =
     (if i < length w
      then (case add_item (fst (w ! i)) x of (out, c) \<Rightarrow> Inr (out, write_back i c w))
      else Inl NameError)"
| "step h (UseConsumable i x) w =
     (if i < length w
      then (case use_consumable h (fst (w ! i)) x of
              Inl e \<Rightarrow> Inl e
            | Inr (out, c) \<Rightarrow> Inr (out, write_back i c w))
      else Inl NameError)"

fun exec :: "heap \<Rightarrow> call list \<Rightarrow> world \<Rightarrow> error + report list \<times> world" where
  "exec h [] w = Inr ([], w)"
| "exec h (c # cs) w =
     (case step h c w of
        Inl e \<Rightarrow> Inl e
      | Inr (out, w') \<Rightarrow>
          (case exec h cs w' of
             Inl e \<Rightarrow> Inl e
           | Inr (out', w'') \<Rightarrow> Inr (out @ out', w'')))"

text \<open>
  The reports and the characters at the end of a program that starts with the characters
  \<open>cs\<close>, each of them with a list of its own.
\<close>

definition run :: "heap \<Rightarrow> call list \<Rightarrow> Character list \<Rightarrow> error + report list \<times> Character list" where
  "run h calls cs =
     (case exec h calls (zip cs [0..<length cs]) of
        Inl e \<Rightarrow> Inl e
      | Inr (out, w) \<Rightarrow> Inr (out, map fst w))"

section \<open>Example data\<close>

text \<open>
  The objects of \<^verbatim>\<open>main\<close>: the sword and the healing potion, the hero (a Knight
  with every optional argument left out) and the goblin (a Grunt with health 30, attack
  5 and defense 2). A Mage constructed with health 3 is a third character. Three further healing potions with the same fields are three more
  objects, and a potion may carry a negative amount.
\<close>

definition example_heap :: heap where
  "example_heap x =
     (if x = 0 then Weapon ''Sword of Power'' ''A mighty sword.'' 3 7
      else if x = 1 \<or> x = 2 \<or> x = 3 then Potion ''Healing Potion'' ''Restores health.'' HEALTH 2
      else if x = 4 then Potion ''Poison'' ''Drains health.'' HEALTH (- 200)
      else Item ''Rock'' ''A rock.'')"

definition example_rolls :: rolls where
  "example_rolls =
     \<lparr>roll_strength = 5, roll_perception = 3, roll_dexterity = 8, roll_intelligence = 1,
      roll_charisma = 10, roll_luck = 6\<rparr>"

definition only_required :: "string \<Rightarrow> class_arg \<Rightarrow> ctor_args" where
  "only_required n cls =
     \<lparr>arg_name = n, arg_character_class = cls, arg_strength = None, arg_perception = None,
      arg_dexterity = None, arg_intelligence = None, arg_charisma = None, arg_luck = None,
      arg_level = None, arg_health = None, arg_attack = None, arg_defense = None,
      arg_inventory = None\<rparr>"

definition hero_args :: ctor_args where
  "hero_args = only_required ''Arthur'' (Str ''Knight'')"

definition goblin_args :: ctor_args where
  "goblin_args =
     (only_required ''Goblin'' (Str ''Grunt''))
       \<lparr>arg_health := Some 30, arg_attack := Some 5, arg_defense := Some 2\<rparr>"

definition mage_args :: ctor_args where
  "mage_args = (only_required ''Merlin'' (Str ''Mage''))\<lparr>arg_health := Some 3\<rparr>"

section \<open>The example characters\<close>

lemma hero_value:
  "new_Character example_rolls hero_args =
    \<lparr>name = ''Arthur'', character_class = ''Knight'', strength = 7, perception = 3,
     dexterity = 8, intelligence = 1, charisma = 10, luck = 6, level = 1, health = 110,
     attack = 10, defense = 6, inventory = []\<rparr>"
  by (simp add: new_Character_def init_fields_def hero_args_def only_required_def
      example_rolls_def apply_class_bonuses_def)

lemma goblin_value:
  "new_Character r goblin_args =
    \<lparr>name = ''Goblin'', character_class = ''Grunt'', strength = roll_strength r + 1,
     perception = roll_perception r, dexterity = roll_dexterity r,
     intelligence = roll_intelligence r, charisma = roll_charisma r, luck = roll_luck r,
     level = 1, health = 35, attack = 5, defense = 2, inventory = []\<rparr>"
  by (simp add: new_Character_def init_fields_def goblin_args_def only_required_def
      apply_class_bonuses_def)

lemma mage_value:
  "new_Character example_rolls mage_args =
    \<lparr>name = ''Merlin'', character_class = ''Mage'', strength = 5, perception = 3,
     dexterity = 8, intelligence = 4, charisma = 10, luck = 6, level = 1, health = - 2,
     attack = 12, defense = 5, inventory = []\<rparr>"
  by (simp add: new_Character_def init_fields_def mage_args_def only_required_def
      example_rolls_def apply_class_bonuses_def)

section \<open>Properties of combat\<close>

lemma take_damage_health:
  "health (snd (take_damage c amount)) = max 0 (health c - max 0 (amount - defense c))"
  by (simp add: take_damage_def damage_taken_def Let_def max_def)

lemma take_damage_frame:
  "snd (take_damage c amount) = c\<lparr>health := health (snd (take_damage c amount))\<rparr>"
  by (simp add: take_damage_def Let_def)

text \<open>
  C1. For a character with health \<open>h\<close> and defense \<open>d \<ge> 0\<close>, and an amount
  \<open>\<ge> 0\<close>, \<^verbatim>\<open>take_damage(amount)\<close> leaves the health at
  \<open>max 0 (h - max 0 (amount - d))\<close>; every other field keeps its value.
\<close>

theorem take_damage_sets_health:
  assumes "0 \<le> defense c" and "0 \<le> amount"
  shows "snd (take_damage c amount) =
           c\<lparr>health := max 0 (health c - max 0 (amount - defense c))\<rparr>"
  using take_damage_frame [of c amount] take_damage_health [of c amount] by simp

theorem take_damage_sets_health_witness:
  "snd (take_damage
      \<lparr>name = ''Goblin'', character_class = ''Grunt'', strength = 4, perception = 3,
       dexterity = 2, intelligence = 1, charisma = 1, luck = 6, level = 1, health = 35,
       attack = 5, defense = 2, inventory = []\<rparr> 11) =
    \<lparr>name = ''Goblin'', character_class = ''Grunt'', strength = 4, perception = 3,
       dexterity = 2, intelligence = 1, charisma = 1, luck = 6, level = 1, health = 26,
       attack = 5, defense = 2, inventory = []\<rparr>"
  using take_damage_sets_health
    [of "\<lparr>name = ''Goblin'', character_class = ''Grunt'', strength = 4, perception = 3,
       dexterity = 2, intelligence = 1, charisma = 1, luck = 6, level = 1, health = 35,
       attack = 5, defense = 2, inventory = []\<rparr>" 11]
  by simp

lemma damage_taken_nonneg: "0 \<le> damage_taken c amount"
  by (simp add: damage_taken_def)

lemma take_damage_raises_iff:
  "health c < health (snd (take_damage c amount)) \<longleftrightarrow> health c < 0"
  by (auto simp: take_damage_health max_def)



text \<open>
  C4 says that the Grunt built with health 30, attack 5 and defense 2 ends six hits of 5
  with health 12. Construction adds the Grunt's bonus of 5 to the health given, so the
  six hits of 3 start from 35 and end at 17.
\<close>

theorem grunt_six_hits_counterexample:
  "(case run example_heap
           [New example_rolls goblin_args, TakeDamage 0 5, TakeDamage 0 5, TakeDamage 0 5,
            TakeDamage 0 5, TakeDamage 0 5, TakeDamage 0 5] [] of
      Inl e \<Rightarrow> False
    | Inr (out, w) \<Rightarrow> map health w = [17] \<and> map health w \<noteq> [12])"
  by (simp add: run_def goblin_value take_damage_def damage_taken_def)

text \<open>
  C4, amended. The Grunt built with health 30, attack 5 and defense 2 has health 35; a
  hit of 5 deals 3; after six such hits the health is 17 and every hit reported a health
  above 0. The attributes rolled at construction do not matter.
\<close>

theorem grunt_six_hits:
  "health (new_Character r goblin_args) = 35
   \<and> damage_taken (new_Character r goblin_args) 5 = 3
   \<and> run h [New r goblin_args, TakeDamage 0 5, TakeDamage 0 5, TakeDamage 0 5,
             TakeDamage 0 5, TakeDamage 0 5, TakeDamage 0 5] [] =
       Inr ([TookDamage ''Goblin'' 5 32, TookDamage ''Goblin'' 5 29,
             TookDamage ''Goblin'' 5 26, TookDamage ''Goblin'' 5 23,
             TookDamage ''Goblin'' 5 20, TookDamage ''Goblin'' 5 17],
            [(new_Character r goblin_args)\<lparr>health := 17\<rparr>])"
  by (simp add: run_def goblin_value take_damage_def damage_taken_def)

section \<open>Properties of the inventory\<close>

lemma py_eq_iff: "py_eq h a b \<longleftrightarrow> h a = h b"
  by (auto simp: py_eq_def)

lemma list_contains_iff: "list_contains h xs x \<longleftrightarrow> (\<exists>y\<in>set xs. h y = h x)"
  by (induction xs) (auto simp: py_eq_iff)

lemma list_count_zero: "list_count h xs x = 0 \<longleftrightarrow> \<not> list_contains h xs x"
  by (induction xs) auto

lemma list_remove_first:
  "\<not> list_contains h xs x \<Longrightarrow> py_eq h q x \<Longrightarrow> list_remove h (xs @ q # ys) x = Inr (xs @ ys)"
  by (induction xs) auto

lemma list_remove_contained:
  "list_contains h xs x \<Longrightarrow>
     \<exists>zs. list_remove h xs x = Inr zs \<and> Suc (length zs) = length xs
        \<and> Suc (list_count h zs x) = list_count h xs x"
  by (induction xs) auto

lemma list_remove_absent: "\<not> list_contains h xs x \<Longrightarrow> list_remove h xs x = Inl ValueError"
  by (induction xs) auto

lemma use_consumable_potion_step:
  assumes "h p = Potion n d t a" and "list_remove h (inventory c) p = Inr rest"
    and "list_contains h (inventory c) p"
  shows "use_consumable h c p =
           Inr ([Drinking t a, Healed (name c) a (health c + a)],
                c\<lparr>health := health c + a, inventory := rest\<rparr>)"
  using assms by (simp add: use_consumable_def)

lemma use_consumable_returns: "\<exists>out c'. use_consumable h c x = Inr (out, c')"
proof (cases "list_contains h (inventory c) x")
  case True
  from list_remove_contained [OF True] obtain rest where
    r: "list_remove h (inventory c) x = Inr rest" by blast
  show ?thesis
  proof (cases "h x")
    case (Potion n d t a)
    from use_consumable_potion_step [OF Potion r True] show ?thesis by blast
  qed (use True in \<open>simp_all add: use_consumable_def\<close>)
next
  case False
  then show ?thesis by (simp add: use_consumable_def)
qed

text \<open>
  C7. When the item is not in the inventory, \<^verbatim>\<open>use_consumable\<close> returns normally,
  reports that the character does not have it, and leaves the character, its inventory
  and health included, as it was.
\<close>

theorem use_consumable_absent:
  assumes "\<not> list_contains h (inventory c) x"
  shows "use_consumable h c x = Inr ([DoesNotHave (name c) (item_name (h x))], c)"
  using assms by (simp add: use_consumable_def)

theorem use_consumable_absent_witness:
  "\<not> list_contains example_heap [0] 1
   \<and> use_consumable example_heap ((new_Character example_rolls hero_args)\<lparr>inventory := [0]\<rparr>) 1 =
       Inr ([DoesNotHave ''Arthur'' ''Healing Potion''],
            (new_Character example_rolls hero_args)\<lparr>inventory := [0]\<rparr>)"
  using use_consumable_absent
    [of example_heap "(new_Character example_rolls hero_args)\<lparr>inventory := [0]\<rparr>" 1]
  by (simp add: hero_value example_heap_def py_eq_def)

text \<open>
  C8. When the item is in the inventory and is not a potion, \<^verbatim>\<open>use_consumable\<close>
  returns normally, reports that it is not a consumable item, and leaves the character,
  its inventory and health included, as it was.
\<close>

theorem use_consumable_not_potion:
  assumes "list_contains h (inventory c) x" and "\<not> isinstance_Potion (h x)"
  shows "use_consumable h c x = Inr ([NotConsumable (item_name (h x))], c)"
  using assms by (simp add: use_consumable_def)

theorem use_consumable_not_potion_witness:
  "list_contains example_heap [0, 1] 0 \<and> \<not> isinstance_Potion (example_heap 0)
   \<and> use_consumable example_heap ((new_Character example_rolls hero_args)\<lparr>inventory := [0, 1]\<rparr>) 0 =
       Inr ([NotConsumable ''Sword of Power''],
            (new_Character example_rolls hero_args)\<lparr>inventory := [0, 1]\<rparr>)"
  using use_consumable_not_potion
    [of example_heap "(new_Character example_rolls hero_args)\<lparr>inventory := [0, 1]\<rparr>" 0]
  by (simp add: hero_value example_heap_def py_eq_def)

text \<open>
  C3 says that after \<^verbatim>\<open>use_consumable(p)\<close> on a potion of the inventory that very
  potion is no longer in the inventory. With the inventory \<open>[2, 1]\<close>, where 2 and 1 are
  two potions with the same fields, using potion 1 removes potion 2, and potion 1 stays;
  with the same potion added twice, one of the two entries stays.
\<close>

theorem use_consumable_potion_instance_counterexample:
  "example_heap 1 = Potion ''Healing Potion'' ''Restores health.'' HEALTH 2
   \<and> 1 \<in> set (inventory ((new_Character example_rolls hero_args)\<lparr>inventory := [2, 1]\<rparr>))
   \<and> use_consumable example_heap ((new_Character example_rolls hero_args)\<lparr>inventory := [2, 1]\<rparr>) 1 =
       Inr ([Drinking HEALTH 2, Healed ''Arthur'' 2 112],
            (new_Character example_rolls hero_args)\<lparr>health := 112, inventory := [1]\<rparr>)
   \<and> 1 \<in> set (inventory ((new_Character example_rolls hero_args)\<lparr>health := 112, inventory := [1]\<rparr>))
   \<and> use_consumable example_heap ((new_Character example_rolls hero_args)\<lparr>inventory := [1, 1]\<rparr>) 1 =
       Inr ([Drinking HEALTH 2, Healed ''Arthur'' 2 112],
            (new_Character example_rolls hero_args)\<lparr>health := 112, inventory := [1]\<rparr>)"
  by (simp add: hero_value example_heap_def py_eq_def use_consumable_def)

text \<open>
  C3, amended. When the inventory holds a potion \<open>p\<close> (or one equal to it),
  \<^verbatim>\<open>use_consumable(p)\<close> makes the inventory one shorter, adds the amount of \<open>p\<close> to
  the health with no clamp, and removes one entry equal to \<open>p\<close>; \<open>p\<close> is no longer
  in the inventory afterwards when it held exactly one entry equal to \<open>p\<close>.
\<close>

theorem use_consumable_potion:
  assumes "h p = Potion n d t a" and "list_contains h (inventory c) p"
  shows "\<exists>rest. use_consumable h c p =
             Inr ([Drinking t a, Healed (name c) a (health c + a)],
                  c\<lparr>health := health c + a, inventory := rest\<rparr>)
           \<and> Suc (length rest) = length (inventory c)
           \<and> Suc (list_count h rest p) = list_count h (inventory c) p
           \<and> (list_count h (inventory c) p = 1 \<longrightarrow> \<not> list_contains h rest p)"
proof -
  from list_remove_contained [OF assms(2)] obtain rest where
    r: "list_remove h (inventory c) p = Inr rest"
    and l: "Suc (length rest) = length (inventory c)"
    and n: "Suc (list_count h rest p) = list_count h (inventory c) p"
    by blast
  have "list_count h (inventory c) p = 1 \<longrightarrow> \<not> list_contains h rest p"
    using n list_count_zero [of h rest p] by auto
  with use_consumable_potion_step [OF assms(1) r assms(2)] l n show ?thesis
    by blast
qed

theorem use_consumable_potion_witness:
  "example_heap 1 = Potion ''Healing Potion'' ''Restores health.'' HEALTH 2
   \<and> list_contains example_heap [0, 1] 1
   \<and> use_consumable example_heap ((new_Character example_rolls hero_args)\<lparr>inventory := [0, 1]\<rparr>) 1 =
       Inr ([Drinking HEALTH 2, Healed ''Arthur'' 2 112],
            (new_Character example_rolls hero_args)\<lparr>health := 112, inventory := [0]\<rparr>)
   \<and> list_count example_heap [0, 1] 1 = 1
   \<and> \<not> list_contains example_heap [0] 1"
  using use_consumable_potion
    [of example_heap 1 "''Healing Potion''" "''Restores health.''" HEALTH 2
        "(new_Character example_rolls hero_args)\<lparr>inventory := [0, 1]\<rparr>"]
  by (simp add: hero_value example_heap_def py_eq_def use_consumable_def)

text \<open>
  C10. \<^verbatim>\<open>use_consumable\<close> finds and removes by equality of the fields, not by
  identity: when \<open>q\<close> is the first entry of the inventory equal to the potion \<open>p\<close>,
  the call succeeds and removes \<open>q\<close>, whether or not \<open>p\<close> itself was ever added, and
  the entries after \<open>q\<close>, equal ones included, stay.
\<close>

theorem use_consumable_structural:
  assumes "h p = Potion n d t a" and "inventory c = xs @ q # ys" and "h q = h p"
    and "\<not> list_contains h xs p"
  shows "use_consumable h c p =
           Inr ([Drinking t a, Healed (name c) a (health c + a)],
                c\<lparr>health := health c + a, inventory := xs @ ys\<rparr>)"
proof -
  have q: "py_eq h q p" using assms(3) by (simp add: py_eq_iff)
  have r: "list_remove h (inventory c) p = Inr (xs @ ys)"
    using list_remove_first [OF assms(4) q] assms(2) by simp
  have "list_contains h (inventory c) p"
    using assms(2,3) by (auto simp: list_contains_iff)
  from use_consumable_potion_step [OF assms(1) r this] show ?thesis .
qed

theorem use_consumable_structural_witness:
  "1 \<notin> set [0, 2, 3 :: nat] \<and> example_heap 2 = example_heap 1
   \<and> use_consumable example_heap ((new_Character example_rolls hero_args)\<lparr>inventory := [0, 2, 3]\<rparr>) 1 =
       Inr ([Drinking HEALTH 2, Healed ''Arthur'' 2 112],
            (new_Character example_rolls hero_args)\<lparr>health := 112, inventory := [0, 3]\<rparr>)"
  using use_consumable_structural
    [of example_heap 1 "''Healing Potion''" "''Restores health.''" HEALTH 2
        "(new_Character example_rolls hero_args)\<lparr>inventory := [0, 2, 3]\<rparr>" "[0]" 2 "[3]"]
  by (simp add: hero_value example_heap_def py_eq_def)

section \<open>Properties of construction\<close>

lemma apply_class_bonuses_class: "character_class (apply_class_bonuses c) = character_class c"
  unfolding apply_class_bonuses_def
  by (simp only: if_distrib [of character_class]) (simp split del: if_split cong: if_cong)

lemma init_fields_enum:
  "init_fields r (a\<lparr>arg_character_class := Enum e\<rparr>) =
     init_fields r (a\<lparr>arg_character_class := Str (CharacterClass_value e)\<rparr>)"
  by (simp add: init_fields_def)

lemma init_fields_class:
  "character_class (init_fields r (a\<lparr>arg_character_class := Str s\<rparr>)) = s"
  by (simp add: init_fields_def)

text \<open>
  C9. Constructing a character with a member of \<^verbatim>\<open>CharacterClass\<close> gives the same
  character as constructing it with the member's string, the other arguments and the
  rolls being the same, and the class stored is that string.
\<close>

theorem enum_class_normalised:
  "new_Character r (a\<lparr>arg_character_class := Enum e\<rparr>) =
     new_Character r (a\<lparr>arg_character_class := Str (CharacterClass_value e)\<rparr>)
   \<and> character_class (new_Character r (a\<lparr>arg_character_class := Enum e\<rparr>)) =
       CharacterClass_value e"
  unfolding new_Character_def
  by (simp only: init_fields_enum apply_class_bonuses_class init_fields_class)

lemma apply_class_bonuses_unknown:
  assumes "\<forall>e. character_class c \<noteq> CharacterClass_value e"
  shows "apply_class_bonuses c = c"
proof -
  have ne: "\<And>e. (character_class c = CharacterClass_value e) = False"
    using assms by simp
  show ?thesis unfolding apply_class_bonuses_def by (simp only: ne if_False)
qed

text \<open>
  C6. For a class string that is the label of none of the 21 classes, construction adds
  no bonus: every attribute and the health, attack and defense are the values given, or
  the defaults, and the constructor returns normally.
\<close>

theorem unknown_class_no_bonus:
  assumes "\<forall>e. s \<noteq> CharacterClass_value e"
  shows "new_Character r (a\<lparr>arg_character_class := Str s\<rparr>) =
     \<lparr>name = arg_name a,
      character_class = s,
      strength = supplied_or (arg_strength a) (roll_strength r),
      perception = supplied_or (arg_perception a) (roll_perception r),
      dexterity = supplied_or (arg_dexterity a) (roll_dexterity r),
      intelligence = supplied_or (arg_intelligence a) (roll_intelligence r),
      charisma = supplied_or (arg_charisma a) (roll_charisma r),
      luck = supplied_or (arg_luck a) (roll_luck r),
      level = supplied_or (arg_level a) 1,
      health = supplied_or (arg_health a) 100,
      attack = supplied_or (arg_attack a) 10,
      defense = supplied_or (arg_defense a) 5,
      inventory = supplied_or (arg_inventory a) []\<rparr>"
proof -
  have i: "init_fields r (a\<lparr>arg_character_class := Str s\<rparr>) =
     \<lparr>name = arg_name a,
      character_class = s,
      strength = supplied_or (arg_strength a) (roll_strength r),
      perception = supplied_or (arg_perception a) (roll_perception r),
      dexterity = supplied_or (arg_dexterity a) (roll_dexterity r),
      intelligence = supplied_or (arg_intelligence a) (roll_intelligence r),
      charisma = supplied_or (arg_charisma a) (roll_charisma r),
      luck = supplied_or (arg_luck a) (roll_luck r),
      level = supplied_or (arg_level a) 1,
      health = supplied_or (arg_health a) 100,
      attack = supplied_or (arg_attack a) 10,
      defense = supplied_or (arg_defense a) 5,
      inventory = supplied_or (arg_inventory a) []\<rparr>" (is "_ = ?c")
    by (simp add: init_fields_def)
  have "\<forall>e. character_class ?c \<noteq> CharacterClass_value e"
    using assms by simp
  from apply_class_bonuses_unknown [OF this] i show ?thesis
    by (simp only: new_Character_def)
qed

theorem unknown_class_no_bonus_witness:
  "(\<forall>e. ''Peasant'' \<noteq> CharacterClass_value e)
   \<and> new_Character example_rolls
        ((only_required ''Bob'' (Str ''peasant''))\<lparr>arg_health := Some 40, arg_character_class := Str ''Peasant''\<rparr>) =
      \<lparr>name = ''Bob'', character_class = ''Peasant'', strength = 5, perception = 3,
       dexterity = 8, intelligence = 1, charisma = 10, luck = 6, level = 1, health = 40,
       attack = 10, defense = 5, inventory = []\<rparr>"
proof -
  have h: "\<forall>e. ''Peasant'' \<noteq> CharacterClass_value e"
  proof
    fix e show "''Peasant'' \<noteq> CharacterClass_value e" by (cases e) simp_all
  qed
  from unknown_class_no_bonus
    [OF h, of example_rolls "(only_required ''Bob'' (Str ''peasant''))\<lparr>arg_health := Some 40\<rparr>"]
  show ?thesis using h by (simp add: only_required_def example_rolls_def)
qed

section \<open>Characters that share a list\<close>

text \<open>
  In every world a program reaches, two characters with the same list address have the
  same inventory, and a new address is new.
\<close>

lemma apply_class_bonuses_inventory:
  "apply_class_bonuses (c\<lparr>inventory := xs\<rparr>) = (apply_class_bonuses c)\<lparr>inventory := xs\<rparr>"
  by (cases c)
    (simp add: apply_class_bonuses_def if_distrib [of "\<lambda>d. d\<lparr>inventory := xs\<rparr>"]
      split del: if_split cong: if_cong)

lemma new_Character_inventory:
  "new_Character r (a\<lparr>arg_inventory := Some xs\<rparr>) = (new_Character r a)\<lparr>inventory := xs\<rparr>"
proof -
  have "init_fields r (a\<lparr>arg_inventory := Some xs\<rparr>) = (init_fields r a)\<lparr>inventory := xs\<rparr>"
    by (simp add: init_fields_def)
  then show ?thesis by (simp only: new_Character_def apply_class_bonuses_inventory)
qed

lemma write_back_mem:
  assumes "p \<in> set (write_back i c w)"
  shows "(snd p = snd (w ! i) \<and> inventory (fst p) = inventory c)
         \<or> (snd p \<noteq> snd (w ! i) \<and> p \<in> set w)"
proof -
  from assms obtain d k where dk: "(d, k) \<in> set (w[i := (c, snd (w ! i))])"
    and p: "p = (if k = snd (w ! i) then (d\<lparr>inventory := inventory c\<rparr>, k) else (d, k))"
    unfolding write_back_def by auto
  show ?thesis
  proof (cases "k = snd (w ! i)")
    case True
    with p show ?thesis by simp
  next
    case False
    from dk set_update_subset_insert [of w i "(c, snd (w ! i))"]
    have "(d, k) = (c, snd (w ! i)) \<or> (d, k) \<in> set w" by blast
    with False have "(d, k) \<in> set w" by simp
    with False p show ?thesis by simp
  qed
qed

lemma write_back_sharing:
  assumes "\<forall>p\<in>set w. \<forall>q\<in>set w. snd p = snd q \<longrightarrow> inventory (fst p) = inventory (fst q)"
    and "p \<in> set (write_back i c w)" and "q \<in> set (write_back i c w)" and "snd p = snd q"
  shows "inventory (fst p) = inventory (fst q)"
  using write_back_mem [OF assms(2)] write_back_mem [OF assms(3)] assms(1,4)
  by metis

lemma write_back_address:
  assumes "p \<in> set (write_back i c w)" and "i < length w" and "\<forall>q\<in>set w. snd q < length w"
  shows "snd p < length (write_back i c w)"
proof -
  have wi: "w ! i \<in> set w" using assms(2) by simp
  from write_back_mem [OF assms(1)] show ?thesis
  proof
    assume "snd p = snd (w ! i) \<and> inventory (fst p) = inventory c"
    with wi assms(3) show ?thesis by (simp add: write_back_def)
  next
    assume "snd p \<noteq> snd (w ! i) \<and> p \<in> set w"
    with assms(3) show ?thesis by (simp add: write_back_def)
  qed
qed

lemma put_mem: "p \<in> set (w[i := x]) \<Longrightarrow> p = x \<or> p \<in> set w"
  using set_update_subset_insert [of w i x] by blast

lemma put_address:
  assumes "p \<in> set (w[i := (c, snd (w ! i))])" and "i < length w"
    and "\<forall>q\<in>set w. snd q < length w"
  shows "snd p < length (w[i := (c, snd (w ! i))])"
proof -
  have wi: "w ! i \<in> set w" using assms(2) by simp
  from put_mem [OF assms(1)] show ?thesis
  proof
    assume "p = (c, snd (w ! i))"
    with wi assms(3) show ?thesis by simp
  next
    assume "p \<in> set w"
    with assms(3) show ?thesis by simp
  qed
qed

lemma put_sharing:
  assumes "\<forall>p\<in>set w. \<forall>q\<in>set w. snd p = snd q \<longrightarrow> inventory (fst p) = inventory (fst q)"
    and "i < length w" and "inventory c = inventory (fst (w ! i))"
    and "p \<in> set (w[i := (c, snd (w ! i))])" and "q \<in> set (w[i := (c, snd (w ! i))])"
    and "snd p = snd q"
  shows "inventory (fst p) = inventory (fst q)"
proof -
  have wi: "w ! i \<in> set w" using assms(2) by simp
  have *: "inventory (fst r) = inventory (fst (w ! i))"
    if "r \<in> set (w[i := (c, snd (w ! i))])" "snd r = snd (w ! i)" for r
  proof -
    from put_mem [OF that(1)] show ?thesis
    proof
      assume "r = (c, snd (w ! i))"
      with assms(3) show ?thesis by simp
    next
      assume "r \<in> set w"
      with assms(1) wi that(2) show ?thesis by blast
    qed
  qed
  show ?thesis
  proof (cases "snd p = snd (w ! i)")
    case True
    with assms(6) *[OF assms(4)] *[OF assms(5)] show ?thesis by simp
  next
    case False
    with put_mem [OF assms(4)] have p: "p \<in> set w" by auto
    from False assms(6) put_mem [OF assms(5)] have q: "q \<in> set w" by auto
    from assms(1,6) p q show ?thesis by blast
  qed
qed

lemma snoc_sharing:
  assumes "\<forall>p\<in>set w. \<forall>q\<in>set w. snd p = snd q \<longrightarrow> inventory (fst p) = inventory (fst q)"
    and "\<forall>q\<in>set w. snd q = l \<longrightarrow> inventory (fst q) = inventory c"
    and "p \<in> set (w @ [(c, l)])" and "q \<in> set (w @ [(c, l)])" and "snd p = snd q"
  shows "inventory (fst p) = inventory (fst q)"
proof -
  from assms(3) have p: "p \<in> set w \<or> p = (c, l)" by auto
  from assms(4) have q: "q \<in> set w \<or> q = (c, l)" by auto
  from p show ?thesis
  proof
    assume pw: "p \<in> set w"
    from q show ?thesis
    proof
      assume "q \<in> set w"
      with pw assms(1,5) show ?thesis by blast
    next
      assume "q = (c, l)"
      with pw assms(2,5) show ?thesis by simp
    qed
  next
    assume pn: "p = (c, l)"
    from q show ?thesis
    proof
      assume "q \<in> set w"
      with pn assms(2,5) show ?thesis by simp
    next
      assume "q = (c, l)"
      with pn show ?thesis by simp
    qed
  qed
qed

lemma snoc_address:
  assumes "\<forall>q\<in>set w. snd q < length w" and "l \<le> length w" and "p \<in> set (w @ [(c, l)])"
  shows "snd p < length (w @ [(c, l)])"
proof -
  from assms(3) have "p \<in> set w \<or> p = (c, l)" by auto
  then show ?thesis
  proof
    assume "p \<in> set w"
    with assms(1) have "snd p < length w" by blast
    then show ?thesis by simp
  next
    assume "p = (c, l)"
    with assms(2) show ?thesis by simp
  qed
qed

lemma step_sharing:
  assumes s: "step h cl w = Inr (out, w')"
  and inv: "\<forall>p\<in>set w. \<forall>q\<in>set w. snd p = snd q \<longrightarrow> inventory (fst p) = inventory (fst q)"
  and adr: "\<forall>p\<in>set w. snd p < length w"
  shows "(\<forall>p\<in>set w'. \<forall>q\<in>set w'. snd p = snd q \<longrightarrow> inventory (fst p) = inventory (fst q))
       \<and> (\<forall>p\<in>set w'. snd p < length w')"
proof (cases cl)
  case (New r a)
  with s have w': "w' = w @ [(new_Character r a, length w)]" by simp
  have f: "\<forall>q\<in>set w. snd q = length w \<longrightarrow> inventory (fst q) = inventory (new_Character r a)"
    using adr by auto
  have A: "inventory (fst p) = inventory (fst q)"
    if "p \<in> set w'" "q \<in> set w'" "snd p = snd q" for p q
    using that unfolding w' by (rule snoc_sharing [OF inv f])
  have B: "snd p < length w'" if "p \<in> set w'" for p
    using that unfolding w' by (rule snoc_address [OF adr order_refl])
  from A B show ?thesis by blast
  next
  case (NewSharing r a j)
  from s NewSharing have j: "j < length w" by (simp split: if_splits)
  with s NewSharing have w': "w' =
      w @ [((new_Character r a)\<lparr>inventory := inventory (fst (w ! j))\<rparr>, snd (w ! j))]"
    by (simp add: new_Character_inventory)
  from j have wj: "w ! j \<in> set w" by simp
  have f: "\<forall>q\<in>set w. snd q = snd (w ! j) \<longrightarrow>
      inventory (fst q) = inventory ((new_Character r a)\<lparr>inventory := inventory (fst (w ! j))\<rparr>)"
  proof (intro ballI impI)
    fix q assume "q \<in> set w" and "snd q = snd (w ! j)"
    with inv wj have "inventory (fst q) = inventory (fst (w ! j))" by blast
    then show "inventory (fst q) =
        inventory ((new_Character r a)\<lparr>inventory := inventory (fst (w ! j))\<rparr>)"
      by simp
  qed
  have l: "snd (w ! j) \<le> length w" using adr wj by (simp add: less_imp_le)
  have A: "inventory (fst p) = inventory (fst q)"
    if "p \<in> set w'" "q \<in> set w'" "snd p = snd q" for p q
    using that unfolding w' by (rule snoc_sharing [OF inv f])
  have B: "snd p < length w'" if "p \<in> set w'" for p
    using that unfolding w' by (rule snoc_address [OF adr l])
  from A B show ?thesis by blast
  next
  case (TakeDamage i amount)
  from s TakeDamage have i: "i < length w" by (simp split: if_splits)
  with s TakeDamage have w': "w' = w[i := (snd (take_damage (fst (w ! i)) amount), snd (w ! i))]"
    by (simp split: prod.splits)
  have c: "inventory (snd (take_damage (fst (w ! i)) amount)) = inventory (fst (w ! i))"
    by (simp add: take_damage_def Let_def)
  have A: "inventory (fst p) = inventory (fst q)"
    if "p \<in> set w'" "q \<in> set w'" "snd p = snd q" for p q
    using that unfolding w' by (rule put_sharing [OF inv i c])
  have B: "snd p < length w'" if "p \<in> set w'" for p
    using that unfolding w' by (rule put_address [OF _ i adr])
  from A B show ?thesis by blast
  next
  case (AttackEnemy i j)
  from s AttackEnemy have j: "j < length w" and i: "i < length w" by (simp_all split: if_splits)
  with s AttackEnemy have w': "w' =
      w[j := (snd (take_damage (fst (w ! j)) (attack (fst (w ! i)))), snd (w ! j))]"
    by (simp add: attack_enemy_def split: prod.splits)
  have c: "inventory (snd (take_damage (fst (w ! j)) (attack (fst (w ! i))))) =
      inventory (fst (w ! j))"
    by (simp add: take_damage_def Let_def)
  have A: "inventory (fst p) = inventory (fst q)"
    if "p \<in> set w'" "q \<in> set w'" "snd p = snd q" for p q
    using that unfolding w' by (rule put_sharing [OF inv j c])
  have B: "snd p < length w'" if "p \<in> set w'" for p
    using that unfolding w' by (rule put_address [OF _ j adr])
  from A B show ?thesis by blast
  next
  case (AddItem i x)
  from s AddItem have i: "i < length w" by (simp split: if_splits)
  with s AddItem have w': "w' = write_back i (snd (add_item (fst (w ! i)) x)) w"
    by (simp split: prod.splits)
  have A: "inventory (fst p) = inventory (fst q)"
    if "p \<in> set w'" "q \<in> set w'" "snd p = snd q" for p q
    using that unfolding w' by (rule write_back_sharing [OF inv])
  have B: "snd p < length w'" if "p \<in> set w'" for p
    using that unfolding w' by (rule write_back_address [OF _ i adr])
  from A B show ?thesis by blast
  next
  case (UseConsumable i x)
  from s UseConsumable have i: "i < length w" by (simp split: if_splits)
  with s UseConsumable obtain c where w': "w' = write_back i c w"
    by (auto split: sum.splits prod.splits)
  have A: "inventory (fst p) = inventory (fst q)"
    if "p \<in> set w'" "q \<in> set w'" "snd p = snd q" for p q
    using that unfolding w' by (rule write_back_sharing [OF inv])
  have B: "snd p < length w'" if "p \<in> set w'" for p
    using that unfolding w' by (rule write_back_address [OF _ i adr])
  from A B show ?thesis by blast
qed

lemma exec_sharing:
  assumes "exec h calls w = Inr (out, w')"
    and "\<forall>p\<in>set w. \<forall>q\<in>set w. snd p = snd q \<longrightarrow> inventory (fst p) = inventory (fst q)"
    and "\<forall>p\<in>set w. snd p < length w"
  shows "(\<forall>p\<in>set w'. \<forall>q\<in>set w'. snd p = snd q \<longrightarrow> inventory (fst p) = inventory (fst q))
         \<and> (\<forall>p\<in>set w'. snd p < length w')"
  using assms
proof (induction calls arbitrary: w out)
  case Nil
  from Nil(1) have "w' = w" by simp
  with Nil(2,3) show ?case by (simp only:)
next
  case (Cons cl calls)
  from Cons.prems(1) obtain out1 w1 out2 where
    s: "step h cl w = Inr (out1, w1)" and r: "exec h calls w1 = Inr (out2, w')"
    by (auto split: sum.splits prod.splits)
  note w1 = step_sharing [OF s Cons.prems(2,3)]
  from Cons.IH [OF r w1 [THEN conjunct1] w1 [THEN conjunct2]] show ?case .
qed

lemma exec_sharing_initial:
  assumes "exec h calls [] = Inr (out, w)"
  shows "\<forall>p\<in>set w. \<forall>q\<in>set w. snd p = snd q \<longrightarrow> inventory (fst p) = inventory (fst q)"
proof -
  have 1: "\<forall>p\<in>set ([] :: world). \<forall>q\<in>set ([] :: world).
      snd p = snd q \<longrightarrow> inventory (fst p) = inventory (fst q)"
    by (simp only: list.set ball_empty)
  have 2: "\<forall>p\<in>set ([] :: world). snd p < length ([] :: world)"
    by (simp only: list.set ball_empty)
  from exec_sharing [OF assms 1 2] show ?thesis by (rule conjunct1)
qed

section \<open>Health over sequences of calls\<close>

lemma use_consumable_health:
  assumes "use_consumable h c x = Inr (out, c')"
  shows "health c' = health c \<or> (\<exists>t a. Drinking t a \<in> set out \<and> health c' = health c + a)"
proof (cases "h x")
  case (Potion n d t a)
  with assms show ?thesis
    by (auto simp: use_consumable_def Let_def split: if_splits sum.splits)
qed (use assms in \<open>auto simp: use_consumable_def split: if_splits\<close>)

lemma use_consumable_drinking:
  assumes "use_consumable h c x = Inr (out, c')" and "Drinking t a \<in> set out"
  shows "(\<exists>n d. h x = Potion n d t a) \<and> list_contains h (inventory c) x"
proof (cases "h x")
  case (Potion n d t' a')
  with assms show ?thesis
    by (auto simp: use_consumable_def Let_def split: if_splits sum.splits)
qed (use assms in \<open>auto simp: use_consumable_def split: if_splits\<close>)

lemma put_health:
  assumes "\<forall>p\<in>set w. 0 \<le> health (fst p)" and "0 \<le> health c"
  shows "\<forall>p\<in>set (w[i := (c, l)]). 0 \<le> health (fst p)"
  using assms set_update_subset_insert [of w i "(c, l)"] by auto

lemma write_back_health:
  assumes "\<forall>p\<in>set w. 0 \<le> health (fst p)" and "0 \<le> health c"
  shows "\<forall>p\<in>set (write_back i c w). 0 \<le> health (fst p)"
proof -
  from put_health [OF assms] have "\<forall>p\<in>set (w[i := (c, snd (w ! i))]). 0 \<le> health (fst p)" .
  then show ?thesis by (auto simp: write_back_def split: if_splits)
qed

lemma step_health:
  assumes "step h cl w = Inr (out, w')"
    and "\<forall>p\<in>set w. 0 \<le> health (fst p)"
    and "\<And>r a. cl = New r a \<Longrightarrow> 0 \<le> health (new_Character r a)"
    and "\<And>r a j. cl = NewSharing r a j \<Longrightarrow> 0 \<le> health (new_Character r a)"
    and "\<forall>t a. Drinking t a \<in> set out \<longrightarrow> 0 \<le> a"
  shows "\<forall>p\<in>set w'. 0 \<le> health (fst p)"
proof (cases cl)
  case (New r a)
  with assms show ?thesis by auto
next
  case (NewSharing r a j)
  with assms(1,2) assms(4) [OF NewSharing] show ?thesis
    by (auto simp: new_Character_inventory split: if_splits)
next
  case (TakeDamage i amount)
  have "0 \<le> health (snd (take_damage (fst (w ! i)) amount))"
    by (simp add: take_damage_health)
  from put_health [OF assms(2) this] assms(1) TakeDamage
  show ?thesis by (auto split: if_splits prod.splits)
next
  case (AttackEnemy i j)
  have "0 \<le> health (snd (take_damage (fst (w ! j)) (attack (fst (w ! i)))))"
    by (simp add: take_damage_health)
  from put_health [OF assms(2) this] assms(1) AttackEnemy
  show ?thesis by (auto simp: attack_enemy_def split: if_splits prod.splits)
next
  case (AddItem i x)
  with assms(1) have i: "i < length w"
    and w': "w' = write_back i (snd (add_item (fst (w ! i)) x)) w"
    by (auto split: if_splits prod.splits)
  from i assms(2) have "0 \<le> health (snd (add_item (fst (w ! i)) x))"
    by (simp add: add_item_def)
  from write_back_health [OF assms(2) this] w' show ?thesis by simp
next
  case (UseConsumable i x)
  with assms(1) obtain c' where i: "i < length w"
    and u: "use_consumable h (fst (w ! i)) x = Inr (out, c')" and w': "w' = write_back i c' w"
    by (auto split: if_splits sum.splits prod.splits)
  from i assms(2) have "0 \<le> health (fst (w ! i))" by simp
  with use_consumable_health [OF u] assms(5) have "0 \<le> health c'"
    by fastforce
  from write_back_health [OF assms(2) this] w' show ?thesis by simp
qed

lemma exec_health:
  assumes "exec h calls w = Inr (out, w')"
    and "\<forall>p\<in>set w. 0 \<le> health (fst p)"
    and "\<forall>r a. New r a \<in> set calls \<longrightarrow> 0 \<le> health (new_Character r a)"
    and "\<forall>r a j. NewSharing r a j \<in> set calls \<longrightarrow> 0 \<le> health (new_Character r a)"
    and "\<forall>t a. Drinking t a \<in> set out \<longrightarrow> 0 \<le> a"
  shows "\<forall>p\<in>set w'. 0 \<le> health (fst p)"
  using assms
proof (induction calls arbitrary: w out)
  case Nil
  then show ?case by simp
next
  case (Cons cl calls)
  from Cons.prems(1) obtain out1 w1 out2 where
    s: "step h cl w = Inr (out1, w1)" and r: "exec h calls w1 = Inr (out2, w')"
    and o: "out = out1 @ out2"
    by (auto split: sum.splits prod.splits)
  have n: "\<And>r a. cl = New r a \<Longrightarrow> 0 \<le> health (new_Character r a)"
    using Cons.prems(3) by simp
  have m: "\<And>r a j. cl = NewSharing r a j \<Longrightarrow> 0 \<le> health (new_Character r a)"
    using Cons.prems(4) by simp
  have d: "\<forall>t a. Drinking t a \<in> set out1 \<longrightarrow> 0 \<le> a"
    using Cons.prems(5) o by simp
  have w1: "\<forall>p\<in>set w1. 0 \<le> health (fst p)"
    using step_health [OF s Cons.prems(2) n m d] .
  have n': "\<forall>r a. New r a \<in> set calls \<longrightarrow> 0 \<le> health (new_Character r a)"
    using Cons.prems(3) by simp
  have m': "\<forall>r a j. NewSharing r a j \<in> set calls \<longrightarrow> 0 \<le> health (new_Character r a)"
    using Cons.prems(4) by simp
  have d': "\<forall>t a. Drinking t a \<in> set out2 \<longrightarrow> 0 \<le> a"
    using Cons.prems(5) o by simp
  from Cons.IH [OF r w1 n' m' d'] show ?case .
qed

text \<open>
  C2 says that the health of a character is never below 0, whatever the arguments of its
  construction and whatever calls follow. A Mage constructed with health 3 starts at
  \<open>- 2\<close>, since the class takes 5 from the health given and construction does not clamp;
  and the hero, at health 110, is left at \<open>- 90\<close> by a potion whose amount is
  \<open>- 200\<close>, since \<^verbatim>\<open>use_consumable\<close> adds the amount as it is.
\<close>

theorem health_never_negative_counterexample:
  "(case run example_heap [New example_rolls mage_args] [] of
      Inl e \<Rightarrow> False
    | Inr (out, w) \<Rightarrow> map health w = [- 2])
   \<and> (case run example_heap [New example_rolls hero_args, AddItem 0 4, UseConsumable 0 4] [] of
         Inl e \<Rightarrow> False
       | Inr (out, w) \<Rightarrow> map health w = [- 90])"
  by (simp add: run_def write_back_def mage_value hero_value add_item_def use_consumable_def
      example_heap_def py_eq_def)

text \<open>
  C2, amended. In every sequence of constructions and calls of \<^verbatim>\<open>take_damage\<close>,
  \<^verbatim>\<open>attack_enemy\<close>, \<^verbatim>\<open>add_item\<close> and \<^verbatim>\<open>use_consumable\<close> that runs to its
  end, where each construction yields a health \<open>\<ge> 0\<close> and each potion consumed (each
  potion reported as drunk) has an amount \<open>\<ge> 0\<close>, every character ends with health
  \<open>\<ge> 0\<close>, characters that share their inventory list included; and the health a
  character has right after \<^verbatim>\<open>take_damage\<close> is \<open>\<ge> 0\<close> in any case.
\<close>

theorem health_never_negative:
  assumes "run h calls [] = Inr (out, cs)"
    and "\<forall>r a. New r a \<in> set calls \<longrightarrow> 0 \<le> health (new_Character r a)"
    and "\<forall>r a j. NewSharing r a j \<in> set calls \<longrightarrow> 0 \<le> health (new_Character r a)"
    and "\<forall>t a. Drinking t a \<in> set out \<longrightarrow> 0 \<le> a"
  shows "list_all (\<lambda>c. 0 \<le> health c) cs
         \<and> 0 \<le> health (snd (take_damage c amount))"
proof -
  from assms(1) obtain w where e: "exec h calls [] = Inr (out, w)" and cs: "cs = map fst w"
    by (auto simp: run_def split: sum.splits prod.splits)
  from exec_health [OF e _ assms(2,3,4)] cs have "list_all (\<lambda>c. 0 \<le> health c) cs"
    by (simp add: list_all_iff)
  then show ?thesis by (simp add: take_damage_health)
qed

text \<open>
  The hero and a goblin constructed with the hero's list: the hero picks up the sword and
  the potion, the goblin drinks the potion, and the potion is gone from the inventory of
  both. The poison, whose amount is below 0, is passed to \<^verbatim>\<open>use_consumable\<close> and
  not consumed, since the hero does not have it.
\<close>

theorem health_never_negative_witness:
  "run example_heap
     [New example_rolls hero_args, NewSharing example_rolls goblin_args 0, AttackEnemy 0 1,
      AttackEnemy 1 0, AddItem 0 0, AddItem 0 1, UseConsumable 1 1, UseConsumable 0 4] [] =
     Inr ([Attacks ''Arthur'' ''Goblin'' 10, TookDamage ''Goblin'' 10 27,
           Attacks ''Goblin'' ''Arthur'' 5, TookDamage ''Arthur'' 5 110,
           PickedUp ''Arthur'' 0, PickedUp ''Arthur'' 1,
           Drinking HEALTH 2, Healed ''Goblin'' 2 29, DoesNotHave ''Arthur'' ''Poison''],
          [(new_Character example_rolls hero_args)\<lparr>inventory := [0]\<rparr>,
           (new_Character example_rolls goblin_args)\<lparr>health := 29, inventory := [0]\<rparr>])
   \<and> list_all (\<lambda>c. 0 \<le> health c)
        [(new_Character example_rolls hero_args)\<lparr>inventory := [0]\<rparr>,
         (new_Character example_rolls goblin_args)\<lparr>health := 29, inventory := [0]\<rparr>]
   \<and> 0 \<le> health (snd (take_damage (new_Character example_rolls goblin_args) 1000))"
proof -
  have r: "run example_heap
     [New example_rolls hero_args, NewSharing example_rolls goblin_args 0, AttackEnemy 0 1,
      AttackEnemy 1 0, AddItem 0 0, AddItem 0 1, UseConsumable 1 1, UseConsumable 0 4] [] =
     Inr ([Attacks ''Arthur'' ''Goblin'' 10, TookDamage ''Goblin'' 10 27,
           Attacks ''Goblin'' ''Arthur'' 5, TookDamage ''Arthur'' 5 110,
           PickedUp ''Arthur'' 0, PickedUp ''Arthur'' 1,
           Drinking HEALTH 2, Healed ''Goblin'' 2 29, DoesNotHave ''Arthur'' ''Poison''],
          [(new_Character example_rolls hero_args)\<lparr>inventory := [0]\<rparr>,
           (new_Character example_rolls goblin_args)\<lparr>health := 29, inventory := [0]\<rparr>])"
    by (simp add: run_def write_back_def new_Character_inventory hero_value goblin_value
        attack_enemy_def take_damage_def damage_taken_def add_item_def use_consumable_def
        example_heap_def py_eq_def)
  have n: "\<forall>r a. New r a \<in> set
     [New example_rolls hero_args, NewSharing example_rolls goblin_args 0, AttackEnemy 0 1,
      AttackEnemy 1 0, AddItem 0 0, AddItem 0 1, UseConsumable 1 1, UseConsumable 0 4]
      \<longrightarrow> 0 \<le> health (new_Character r a)"
    by (auto simp: hero_value)
  have m: "\<forall>r a j. NewSharing r a j \<in> set
     [New example_rolls hero_args, NewSharing example_rolls goblin_args 0, AttackEnemy 0 1,
      AttackEnemy 1 0, AddItem 0 0, AddItem 0 1, UseConsumable 1 1, UseConsumable 0 4]
      \<longrightarrow> 0 \<le> health (new_Character r a)"
    by (auto simp: goblin_value)
  have d: "\<forall>t a. Drinking t a \<in> set
     [Attacks ''Arthur'' ''Goblin'' 10, TookDamage ''Goblin'' 10 27,
      Attacks ''Goblin'' ''Arthur'' 5, TookDamage ''Arthur'' 5 110,
      PickedUp ''Arthur'' 0, PickedUp ''Arthur'' 1,
      Drinking HEALTH 2, Healed ''Goblin'' 2 29, DoesNotHave ''Arthur'' ''Poison''] \<longrightarrow> 0 \<le> a"
    by auto
  from health_never_negative [OF r n m d, of "new_Character example_rolls goblin_args" 1000] r
  show ?thesis by simp
qed

end
